theory Spec2Isabelle
  imports Complex_Main "HOL-Library.Product_Lexorder"
begin

section \<open>Heading inference of \<open>process_pdfs.py\<close>\<close>

text \<open>
  The development embeds the pure part of \<open>src/process_pdfs.py\<close>: \<open>clean_text\<close>,
  \<open>is_likely_heading\<close>, \<open>extract_font_statistics\<close>, \<open>determine_heading_levels\<close>,
  \<open>extract_title_from_pdf\<close> and \<open>extract_outline\<close>. The document that PyMuPDF hands to
  these functions is a value: a list of pages, each a list of blocks, each with an optional
  list of lines, each with a bounding box and a list of spans.

  Conventions of the embedding.
  \<^item> Text is a \<open>string\<close> of ASCII characters. The character classes of Python's \<open>re\<close>
    and \<open>str\<close> (\<open>\s\<close>, \<open>\w\<close>, \<open>\d\<close>, \<open>isupper\<close>, \<open>lower\<close>) are written out for ASCII;
    a character above 127 belongs to none of them here, so text beyond ASCII is outside the
    embedding.
  \<^item> A Python float is a rational number and float arithmetic is exact arithmetic on
    \<open>rat\<close>: rounding of products, sums and quotients, infinities and NaN are not modelled.
    The two ratio tests of the classifier (\<open>> 0.3\<close>, \<open>>= 0.7\<close>) compare quotients of
    small naturals with a literal, where the float test and the exact test agree.
  \<^item> A raised exception is a value \<open>Inl e\<close> of a sum type; the \<open>try\<close>/\<open>except\<close> of
    \<open>extract_outline\<close> is a case distinction on it.
\<close>

subsection \<open>Characters and strings\<close>

text \<open>\<open>str.isspace\<close> and \<open>\s\<close> on ASCII: tab, LF, VT, FF, CR, the separators
  \<open>0x1C\<close> to \<open>0x1F\<close>, and the space.\<close>

definition is_space :: "char \<Rightarrow> bool" where
  "is_space c = (c \<in> set [CHR 0x09, CHR 0x0A, CHR 0x0B, CHR 0x0C, CHR 0x0D,
                           CHR 0x1C, CHR 0x1D, CHR 0x1E, CHR 0x1F, CHR 0x20])"

text \<open>\<open>\d\<close> on ASCII.\<close>

definition is_digit :: "char \<Rightarrow> bool" where
  "is_digit c = (c \<in> set ''0123456789'')"

text \<open>\<open>[A-Z]\<close>, which is also \<open>str.isupper\<close> of a single ASCII character.\<close>

definition is_upper :: "char \<Rightarrow> bool" where
  "is_upper c = (c \<in> set ''ABCDEFGHIJKLMNOPQRSTUVWXYZ'')"

definition is_lower :: "char \<Rightarrow> bool" where
  "is_lower c = (c \<in> set ''abcdefghijklmnopqrstuvwxyz'')"

text \<open>\<open>\w\<close> on ASCII: letters, digits and the underscore.\<close>

definition is_word :: "char \<Rightarrow> bool" where
  "is_word c = (is_upper c \<or> is_lower c \<or> is_digit c \<or> c = CHR ''_'')"

text \<open>\<open>str.lower\<close> on ASCII.\<close>

definition lower_char :: "char \<Rightarrow> char" where
  "lower_char c = (if is_upper c then char_of (of_char c + (32::nat)) else c)"

definition lower :: "string \<Rightarrow> string" where
  "lower s = map lower_char s"

text \<open>\<open>str.strip()\<close>: whitespace removed at both ends.\<close>

definition strip :: "string \<Rightarrow> string" where
  "strip s = rev (dropWhile is_space (rev (dropWhile is_space s)))"

text \<open>\<open>str.split()\<close>: the maximal runs of non-whitespace characters, in order. The first
  argument is the word read so far.\<close>

fun split_acc :: "string \<Rightarrow> string \<Rightarrow> string list" where
  "split_acc w [] = (if w = [] then [] else [w])"
| "split_acc w (c # cs) =
     (if is_space c then (if w = [] then split_acc [] cs else w # split_acc [] cs)
      else split_acc (w @ [c]) cs)"

definition split :: "string \<Rightarrow> string list" where
  "split s = split_acc [] s"

text \<open>\<open>re.sub(r'\s+', ' ', s)\<close>: every maximal run of whitespace becomes one space. The
  flag says that the previous character was whitespace, so that the run has been replaced
  already.\<close>

fun collapse_ws :: "bool \<Rightarrow> string \<Rightarrow> string" where
  "collapse_ws in_run [] = []"
| "collapse_ws in_run (c # cs) =
     (if is_space c then (if in_run then collapse_ws True cs else CHR 0x20 # collapse_ws True cs)
      else c # collapse_ws False cs)"

text \<open>The characters that \<open>re.sub(r'[^\w\s\-\.\,\:\;\!\?\(\)\[\]\/\"\'&]', '', s)\<close> keeps.\<close>

definition is_kept :: "char \<Rightarrow> bool" where
  "is_kept c = (is_word c \<or> is_space c \<or>
     c \<in> set [CHR ''-'', CHR ''.'', CHR '','', CHR '':'', CHR '';'', CHR ''!'', CHR ''?'',
              CHR ''('', CHR '')'', CHR ''['', CHR '']'', CHR ''/'', CHR 0x22, CHR 0x27,
              CHR ''&''])"

text \<open>\<open>x in y\<close> on strings: \<open>x\<close> occurs in \<open>y\<close> as a contiguous substring.\<close>

fun starts_with :: "string \<Rightarrow> string \<Rightarrow> bool" where
  "starts_with [] s = True"
| "starts_with (p # ps) [] = False"
| "starts_with (p # ps) (c # cs) = (p = c \<and> starts_with ps cs)"

fun str_in :: "string \<Rightarrow> string \<Rightarrow> bool" where
  "str_in x [] = (x = [])"
| "str_in x (c # cs) = (starts_with x (c # cs) \<or> str_in x cs)"

subsection \<open>\<open>clean_text\<close>\<close>

definition clean_text :: "string \<Rightarrow> string" where
  "clean_text text =
     (if text = [] then []
      else filter is_kept (collapse_ws False (strip text)))"

subsection \<open>\<open>is_likely_heading\<close>\<close>

text \<open>The five patterns of \<open>heading_patterns\<close>, each as \<open>re.match\<close> decides it on the
  stripped text.

  \<open>^(\d+\.?\s*)+\<close>: the group needs one digit at least and everything after it is
  optional, so the pattern matches exactly when the text starts with a digit.\<close>

definition match_numbered :: "string \<Rightarrow> bool" where
  "match_numbered t = (case t of [] \<Rightarrow> False | c # _ \<Rightarrow> is_digit c)"

text \<open>\<open>^[A-Z][A-Z\s]{2,}$\<close>: a capital, then two or more characters that are capitals or
  whitespace, up to the end (a stripped text has no final newline for \<open>$\<close> to skip).\<close>

definition match_all_caps :: "string \<Rightarrow> bool" where
  "match_all_caps t =
     (case t of [] \<Rightarrow> False
      | c # cs \<Rightarrow> is_upper c \<and> 2 \<le> length cs \<and> list_all (\<lambda>d. is_upper d \<or> is_space d) cs)"

text \<open>\<open>^(Chapter|Section|Part|Appendix)\s+\d+\<close>: one of the four words, whitespace, a
  digit.\<close>

definition match_chapter :: "string \<Rightarrow> bool" where
  "match_chapter t =
     list_ex (\<lambda>w. starts_with w t \<and>
                (case drop (length w) t of [] \<Rightarrow> False
                 | c # cs \<Rightarrow> is_space c \<and>
                     (case dropWhile is_space cs of [] \<Rightarrow> False | d # _ \<Rightarrow> is_digit d)))
       [''Chapter'', ''Section'', ''Part'', ''Appendix'']"

text \<open>\<open>^[IVX]+\.\s+\<close>: Roman digits, a dot, whitespace.\<close>

definition match_roman :: "string \<Rightarrow> bool" where
  "match_roman t =
     (let is_ivx = (\<lambda>c. c \<in> set ''IVX'') in
      takeWhile is_ivx t \<noteq> [] \<and>
      (case dropWhile is_ivx t of [] \<Rightarrow> False
       | c # cs \<Rightarrow> c = CHR ''.'' \<and> (case cs of [] \<Rightarrow> False | d # _ \<Rightarrow> is_space d)))"

text \<open>\<open>^\w+\s*:$\<close>: word characters, optional whitespace, a colon, the end.\<close>

definition match_label :: "string \<Rightarrow> bool" where
  "match_label t =
     (takeWhile is_word t \<noteq> [] \<and>
      dropWhile is_space (dropWhile is_word t) = [CHR '':''])"

definition has_heading_pattern :: "string \<Rightarrow> bool" where
  "has_heading_pattern text =
     (let t = strip text in
      match_numbered t \<or> match_all_caps t \<or> match_chapter t \<or> match_roman t \<or> match_label t)"

text \<open>The title-case test: with two words or more, at least 70 percent of them start with
  a capital.\<close>

definition is_title_case :: "string \<Rightarrow> bool" where
  "is_title_case text =
     (let words = split text in
      if 2 \<le> length words then
        (let capitalized_words =
               length (filter (\<lambda>word. case word of [] \<Rightarrow> False | c # _ \<Rightarrow> is_upper c) words)
         in (7 / 10 :: rat) \<le> of_nat capitalized_words / of_nat (length words))
      else False)"

text \<open>The score that \<open>is_likely_heading\<close> sums up after its three rejections.\<close>

definition heading_score :: "string \<Rightarrow> rat \<Rightarrow> bool \<Rightarrow> rat \<Rightarrow> nat" where
  "heading_score text font_size is_bold avg_font_size =
     (let size_threshold = avg_font_size * (11 / 10);
          is_large_font = (size_threshold \<le> font_size);
          is_significantly_larger = (avg_font_size * (13 / 10) \<le> font_size)
      in (if is_large_font then 2 else 0)
       + (if is_significantly_larger then 2 else 0)
       + (if is_bold then 2 else 0)
       + (if has_heading_pattern text then 3 else 0)
       + (if is_title_case text then 1 else 0)
       + (if length (split text) \<le> 8 then 1 else 0))"

definition number_ratio :: "string \<Rightarrow> rat" where
  "number_ratio text = of_nat (length (filter is_digit text)) / of_nat (length text)"

text \<open>The last parameter, \<open>doc_stats\<close>, is passed by the caller and never read.\<close>

definition is_likely_heading :: "string \<Rightarrow> rat \<Rightarrow> bool \<Rightarrow> rat \<Rightarrow> 'stats \<Rightarrow> bool" where
  "is_likely_heading text font_size is_bold avg_font_size doc_stats =
     (if text = [] \<or> length (strip text) < 3 then False
      else if 20 < length (split text) then False
      else if 3 / 10 < number_ratio text then False
      else 3 \<le> heading_score text font_size is_bold avg_font_size)"

subsection \<open>The document\<close>

text \<open>What \<open>page.get_text("dict")\<close> returns, as far as the program reads it. A span's
  \<open>font\<close> and \<open>flags\<close> are read with \<open>span.get\<close> and may be absent; a block without the
  key \<open>lines\<close> (an image block) is skipped by every loop. The bounding box of a line is
  \<open>(x0, y0, x1, y1)\<close>. The metadata title is absent or a string.\<close>

record span =
  span_text :: string
  span_size :: rat
  span_font :: "string option"
  span_flags :: "int option"

record line =
  line_bbox :: "rat \<times> rat \<times> rat \<times> rat"
  line_spans :: "span list"

record block =
  block_lines :: "line list option"

type_synonym page = "block list"

record document =
  metadata_title :: "string option"
  pages :: "page list"

datatype py_error = IndexError | KeyError

definition font_of :: "span \<Rightarrow> string" where
  "font_of sp = (case span_font sp of None \<Rightarrow> [] | Some f \<Rightarrow> f)"

definition flags_of :: "span \<Rightarrow> int" where
  "flags_of sp = (case span_flags sp of None \<Rightarrow> 0 | Some f \<Rightarrow> f)"

definition bbox_x0 :: "line \<Rightarrow> rat" where
  "bbox_x0 l = (case line_bbox l of (x0, y0, x1, y1) \<Rightarrow> x0)"

definition bbox_y0 :: "line \<Rightarrow> rat" where
  "bbox_y0 l = (case line_bbox l of (x0, y0, x1, y1) \<Rightarrow> y0)"

text \<open>\<open>round(x, 1)\<close>: the nearest multiple of one tenth, a tie going to the even one.\<close>

definition round1 :: "rat \<Rightarrow> rat" where
  "round1 x =
     (let t = x * 10; f = \<lfloor>t\<rfloor>; r = t - of_int f
      in of_int (if r < 1 / 2 then f else if 1 / 2 < r then f + 1
                 else if even f then f else f + 1) / 10)"

subsection \<open>\<open>extract_font_statistics\<close>\<close>

record font_stats =
  avg_font_size :: rat
  most_common_font :: "rat \<times> string"
  all_sizes :: "rat list"

text \<open>A \<open>Counter\<close> is an association list in insertion order; \<open>counter_add\<close> is
  \<open>counter[key] += n\<close>.\<close>

fun counter_add :: "'k \<Rightarrow> nat \<Rightarrow> ('k \<times> nat) list \<Rightarrow> ('k \<times> nat) list" where
  "counter_add key n [] = [(key, n)]"
| "counter_add key n ((k, v) # rest) =
     (if k = key then (k, v + n) # rest else (k, v) # counter_add key n rest)"

text \<open>\<open>most_common(1)\<close> is \<open>max\<close> over the items by count: the first item of the largest
  count.\<close>

fun first_max :: "('k \<times> nat) \<Rightarrow> ('k \<times> nat) list \<Rightarrow> ('k \<times> nat)" where
  "first_max best [] = best"
| "first_max best (item # rest) =
     (if snd best < snd item then first_max item rest else first_max best rest)"

text \<open>The body of the innermost loop, on the state \<open>(font_sizes, font_counts)\<close>, and the
  four nested loops.\<close>

definition stats_span ::
  "span \<Rightarrow> rat list \<times> ((rat \<times> string) \<times> nat) list \<Rightarrow> rat list \<times> ((rat \<times> string) \<times> nat) list"
where
  "stats_span sp st =
     (let text = strip (span_text sp) in
      if text \<noteq> [] \<and> 2 < length text then
        (let sz = round1 (span_size sp); font = font_of sp
         in (fst st @ [sz], counter_add (sz, font) (length text) (snd st)))
      else st)"

definition stats_block ::
  "block \<Rightarrow> rat list \<times> ((rat \<times> string) \<times> nat) list \<Rightarrow> rat list \<times> ((rat \<times> string) \<times> nat) list"
where
  "stats_block b st =
     (case block_lines b of None \<Rightarrow> st
      | Some ls \<Rightarrow> fold (\<lambda>l. fold stats_span (line_spans l)) ls st)"

definition extract_font_statistics :: "document \<Rightarrow> font_stats" where
  "extract_font_statistics doc =
     (let st = fold (\<lambda>page. fold stats_block page) (pages doc) ([], []);
          font_sizes = fst st; font_counts = snd st
      in \<lparr> avg_font_size =
             (if font_sizes \<noteq> [] then sum_list font_sizes / of_nat (length font_sizes) else 12),
           most_common_font =
             (case font_counts of [] \<Rightarrow> (12, []) | item # rest \<Rightarrow> fst (first_max item rest)),
           all_sizes = rev (sort (remdups font_sizes)) \<rparr>)"

subsection \<open>\<open>determine_heading_levels\<close>\<close>

text \<open>An entry of \<open>text_blocks\<close>. The key \<open>level\<close> is absent until
  \<open>determine_heading_levels\<close> sets it.\<close>

record text_block =
  tb_text :: string
  tb_page :: nat
  tb_x :: rat
  tb_y :: rat
  tb_size :: rat
  tb_font :: string
  tb_bold :: bool
  tb_italic :: bool
  tb_flags :: int
  tb_level :: "string option"

text \<open>\<open>str(n)\<close> of a natural number, for the f-string \<open>f"H{level_counter}"\<close>.\<close>

definition digit_char :: "nat \<Rightarrow> char" where
  "digit_char d = ''0123456789'' ! d"

fun str_nat :: "nat \<Rightarrow> string" where
  "str_nat n = (if n < 10 then [digit_char n] else str_nat (n div 10) @ [digit_char (n mod 10)])"

text \<open>\<open>size_groups[heading["size"]].append(heading)\<close> on a \<open>defaultdict(list)\<close>, kept
  in insertion order.\<close>

fun group_append ::
  "(rat \<times> text_block list) list \<Rightarrow> text_block \<Rightarrow> (rat \<times> text_block list) list" where
  "group_append [] heading = [(tb_size heading, [heading])]"
| "group_append ((k, v) # rest) heading =
     (if k = tb_size heading then (k, v @ [heading]) # rest
      else (k, v) # group_append rest heading)"

text \<open>The loop over \<open>sorted_sizes\<close>, on the state \<open>(level_map, level_counter)\<close>.\<close>

fun assign_levels :: "rat list \<Rightarrow> (rat \<rightharpoonup> string) \<Rightarrow> nat \<Rightarrow> (rat \<rightharpoonup> string)" where
  "assign_levels [] level_map level_counter = level_map"
| "assign_levels (sz # rest) level_map level_counter =
     (if level_counter \<le> 6
      then assign_levels rest (level_map(sz \<mapsto> ''H'' @ str_nat level_counter)) (level_counter + 1)
      else assign_levels rest level_map level_counter)"

definition determine_heading_levels :: "text_block list \<Rightarrow> 'stats \<Rightarrow> text_block list" where
  "determine_heading_levels headings stats =
     (if headings = [] then []
      else
        (let size_groups = foldl group_append [] headings;
             sorted_sizes = rev (sort (map fst size_groups));
             level_map = assign_levels sorted_sizes Map.empty 1
         in map (\<lambda>heading. heading\<lparr>tb_level :=
                    Some (case level_map (tb_size heading) of None \<Rightarrow> ''H6'' | Some l \<Rightarrow> l)\<rparr>)
              headings))"

subsection \<open>\<open>extract_title_from_pdf\<close>\<close>

record title_candidate =
  tc_text :: string
  tc_size :: rat
  tc_y :: rat
  tc_bold :: bool

text \<open>The candidates of the first page, in the order of the three nested loops.\<close>

definition title_candidates :: "page \<Rightarrow> title_candidate list" where
  "title_candidates blocks =
     concat (map (\<lambda>b. case block_lines b of None \<Rightarrow> []
       | Some ls \<Rightarrow>
           concat (map (\<lambda>l.
             concat (map (\<lambda>sp.
               (let text = clean_text (span_text sp) in
                if text \<noteq> [] \<and> 2 \<le> length (split text) \<and> 10 \<le> length text
                then [\<lparr> tc_text = text, tc_size = span_size sp, tc_y = bbox_y0 l,
                        tc_bold = str_in ''Bold'' (font_of sp) \<rparr>]
                else [])) (line_spans l))) ls)) blocks)"

text \<open>The inner loop with its \<open>break\<close>: some accepted candidate lies on the same line and
  one text contains the other, case ignored.\<close>

definition is_duplicate :: "title_candidate \<Rightarrow> title_candidate list \<Rightarrow> bool" where
  "is_duplicate candidate filtered_candidates =
     list_ex (\<lambda>existing.
        \<bar>tc_y candidate - tc_y existing\<bar> < 10 \<and>
        (str_in (lower (tc_text candidate)) (lower (tc_text existing)) \<or>
         str_in (lower (tc_text existing)) (lower (tc_text candidate))))
       filtered_candidates"

fun filter_duplicates :: "title_candidate list \<Rightarrow> title_candidate list \<Rightarrow> title_candidate list"
where
  "filter_duplicates [] filtered_candidates = filtered_candidates"
| "filter_duplicates (candidate # rest) filtered_candidates =
     filter_duplicates rest
       (if is_duplicate candidate filtered_candidates then filtered_candidates
        else filtered_candidates @ [candidate])"

text \<open>\<open>candidates.sort(key=lambda x: (-x["size"], x["y"]))\<close>: a stable sort on the pair,
  ordered lexicographically.\<close>

definition sort_candidates :: "title_candidate list \<Rightarrow> title_candidate list" where
  "sort_candidates candidates = sort_key (\<lambda>x. (- tc_size x, tc_y x)) candidates"

text \<open>\<open>doc[0]\<close> raises \<open>IndexError\<close> on a document without pages.\<close>

definition extract_title_from_pdf :: "document \<Rightarrow> py_error + string" where
  "extract_title_from_pdf doc =
     (let metadata_title = strip (case metadata_title doc of None \<Rightarrow> [] | Some t \<Rightarrow> t) in
      if metadata_title \<noteq> [] \<and> 3 < length metadata_title then Inr (clean_text metadata_title)
      else
        (case pages doc of [] \<Rightarrow> Inl IndexError
         | first_page # _ \<Rightarrow>
             (let candidates = title_candidates first_page in
              if candidates = [] then Inr ''Untitled Document''
              else
                (case filter_duplicates (sort_candidates candidates) [] of
                   [] \<Rightarrow> Inr ''Untitled Document''
                 | first # _ \<Rightarrow> Inr (tc_text first)))))"

subsection \<open>\<open>extract_outline\<close>\<close>

record outline_entry =
  oe_level :: string
  oe_text :: string
  oe_page :: nat

record document_result =
  res_title :: string
  res_outline :: "outline_entry list"

text \<open>The entries that one page adds to \<open>text_blocks\<close>.\<close>

definition page_text_blocks :: "nat \<Rightarrow> page \<Rightarrow> text_block list" where
  "page_text_blocks page_num blocks =
     concat (map (\<lambda>b. case block_lines b of None \<Rightarrow> []
       | Some ls \<Rightarrow>
           concat (map (\<lambda>l.
             concat (map (\<lambda>sp.
               (let text = clean_text (span_text sp) in
                if text = [] \<or> length text < 3 then []
                else
                  (let font_name = font_of sp;
                       is_bold = (str_in ''Bold'' font_name \<or> str_in ''bold'' (lower font_name));
                       is_italic = (str_in ''Italic'' font_name \<or> str_in ''italic'' (lower font_name));
                       font_size = round1 (span_size sp)
                   in [\<lparr> tb_text = text, tb_page = page_num, tb_x = bbox_x0 l, tb_y = bbox_y0 l,
                          tb_size = font_size, tb_font = font_name, tb_bold = is_bold,
                          tb_italic = is_italic, tb_flags = flags_of sp, tb_level = None \<rparr>])))
               (line_spans l))) ls)) blocks)"

definition text_blocks_of :: "document \<Rightarrow> text_block list" where
  "text_blocks_of doc =
     concat (map (\<lambda>(page_num, page). page_text_blocks page_num page) (enumerate 1 (pages doc)))"

text \<open>\<open>heading["level"]\<close> raises \<open>KeyError\<close> on a heading without level.\<close>

fun format_outline :: "text_block list \<Rightarrow> py_error + outline_entry list" where
  "format_outline [] = Inr []"
| "format_outline (heading # rest) =
     (case tb_level heading of None \<Rightarrow> Inl KeyError
      | Some lv \<Rightarrow>
          (case format_outline rest of Inl e \<Rightarrow> Inl e
           | Inr outline \<Rightarrow>
               Inr (\<lparr> oe_level = lv, oe_text = tb_text heading, oe_page = tb_page heading \<rparr>
                    # outline)))"

text \<open>The body of the \<open>try\<close>, for a document that \<open>fitz.open\<close> has opened.\<close>

definition extract_outline_try :: "document \<Rightarrow> py_error + document_result" where
  "extract_outline_try doc =
     (let font_stats = extract_font_statistics doc;
          avg = avg_font_size font_stats;
          text_blocks = text_blocks_of doc;
          headings = filter (\<lambda>b. is_likely_heading (tb_text b) (tb_size b) (tb_bold b) avg
                                    font_stats) text_blocks;
          headings_with_levels = determine_heading_levels headings font_stats;
          sorted_headings = sort_key (\<lambda>x. (tb_page x, tb_y x)) headings_with_levels
      in case extract_title_from_pdf doc of Inl e \<Rightarrow> Inl e
         | Inr title \<Rightarrow>
             (case format_outline sorted_headings of Inl e \<Rightarrow> Inl e
              | Inr outline \<Rightarrow> Inr \<lparr> res_title = title, res_outline = outline \<rparr>))"

definition extract_outline :: "document \<Rightarrow> document_result" where
  "extract_outline doc =
     (case extract_outline_try doc of
        Inl e \<Rightarrow> \<lparr> res_title = ''Error Processing Document'', res_outline = [] \<rparr>
      | Inr result \<Rightarrow> result)"

section \<open>Example documents\<close>

text \<open>Builders for the examples: a span without font and flags, a line at height \<open>y\<close>, a
  text block.\<close>

definition mk_span :: "string \<Rightarrow> rat \<Rightarrow> span" where
  "mk_span t s = \<lparr> span_text = t, span_size = s, span_font = None, span_flags = None \<rparr>"

definition mk_line :: "rat \<Rightarrow> span list \<Rightarrow> line" where
  "mk_line y sps = \<lparr> line_bbox = (72, y, 540, y + 14), line_spans = sps \<rparr>"

definition mk_block :: "line list \<Rightarrow> block" where
  "mk_block ls = \<lparr> block_lines = Some ls \<rparr>"

text \<open>Two documents with the same metadata title and different first pages.\<close>

definition report_doc_a :: document where
  "report_doc_a =
     \<lparr> metadata_title = Some ''  Annual Report  '',
       pages = [ [mk_block [mk_line 80 [mk_span ''Something Else Entirely'' 30] ] ] ] \<rparr>"

definition report_doc_b :: document where
  "report_doc_b =
     \<lparr> metadata_title = Some ''  Annual Report  '',
       pages = [ [mk_block [mk_line 40 [mk_span ''Quarterly Figures Overview'' 18]]], []] \<rparr>"

text \<open>A heading candidate with text, page, height and size; the other fields are
  immaterial to the level resolver.\<close>

definition mk_heading :: "string \<Rightarrow> nat \<Rightarrow> rat \<Rightarrow> rat \<Rightarrow> text_block" where
  "mk_heading t p y s =
     \<lparr> tb_text = t, tb_page = p, tb_x = 72, tb_y = y, tb_size = s, tb_font = [],
       tb_bold = False, tb_italic = False, tb_flags = 0, tb_level = None \<rparr>"

text \<open>Nine candidates of eight distinct sizes, in no particular order of size.\<close>

definition sample_headings :: "text_block list" where
  "sample_headings =
     [mk_heading ''Note'' 1 100 18, mk_heading ''Book'' 1 20 30, mk_heading ''Remark'' 2 40 16,
      mk_heading ''Part'' 1 40 28, mk_heading ''Chapter'' 1 60 26, mk_heading ''Section'' 1 80 24,
      mk_heading ''Subsection'' 2 10 22, mk_heading ''Paragraph'' 2 20 20,
      mk_heading ''Volume'' 3 20 30]"

text \<open>A document whose only span on page 1 is \<open>INTRODUCTION\<close> at size 24 and height 50;
  three spans of size 8 on page 2 bring the average size to 12.\<close>

definition introduction_doc :: document where
  "introduction_doc =
     \<lparr> metadata_title = None,
       pages = [ [mk_block [mk_line 50 [mk_span ''INTRODUCTION'' 24]]],
                [mk_block [mk_line 50 [mk_span ''plain body text'' 8],
                           mk_line 70 [mk_span ''more body text'' 8],
                           mk_line 90 [mk_span ''even more text'' 8] ] ] ] \<rparr>"

text \<open>A first page with four title candidates: two of size 20 on one line, one the
  lower-cased beginning of the other; one of size 20 higher up on the page; a smaller one.\<close>

definition title_page :: page where
  "title_page =
     [mk_block [mk_line 50 [mk_span ''Annual Report Of The Year'' 20, mk_span ''annual report'' 20],
                mk_line 20 [mk_span ''Quarterly Figures Overview'' 20],
                mk_line 90 [mk_span ''Appendix with tables'' 14]]]"

definition title_doc :: document where
  "title_doc = \<lparr> metadata_title = None, pages = [title_page] \<rparr>"

text \<open>A document whose only span is three characters that \<open>clean_text\<close> removes.\<close>

definition symbols_doc :: document where
  "symbols_doc =
     \<lparr> metadata_title = None, pages = [ [mk_block [mk_line 50 [mk_span ''@@@'' 20] ] ] ] \<rparr>"


text \<open>A document without pages and without metadata title.\<close>

definition no_pages_doc :: document where
  "no_pages_doc = \<lparr> metadata_title = None, pages = [] \<rparr>"

section \<open>Notions of the specification\<close>

text \<open>The rank of a size among the distinct sizes of the candidates, the largest size
  having rank 1: one more than the number of distinct candidate sizes above it.\<close>

definition size_rank :: "text_block list \<Rightarrow> rat \<Rightarrow> nat" where
  "size_rank headings s = Suc (length (filter (\<lambda>t. s < t) (remdups (map tb_size headings))))"

text \<open>The ordinal of a level: \<open>n\<close> for \<open>Hn\<close>, and 0 for anything else.\<close>

definition level_ordinal :: "string option \<Rightarrow> nat" where
  "level_ordinal l =
     (case l of
        Some [h, d] \<Rightarrow> (if h = CHR ''H'' \<and> is_digit d then of_char d - 48 else 0)
      | _ \<Rightarrow> 0)"

text \<open>Every span of a block, a page, a document, in the order of the loops.\<close>

definition block_spans :: "block \<Rightarrow> span list" where
  "block_spans b = (case block_lines b of None \<Rightarrow> [] | Some ls \<Rightarrow> concat (map line_spans ls))"

definition page_spans :: "page \<Rightarrow> span list" where
  "page_spans p = concat (map block_spans p)"

definition doc_spans :: "document \<Rightarrow> span list" where
  "doc_spans doc = concat (map page_spans (pages doc))"

text \<open>The average font size in the words of the specification: the mean of the font size
  of every span whose normalized text is longer than 2 characters, and 12 when there is no
  such span.\<close>

definition spec_avg_font_size :: "document \<Rightarrow> rat" where
  "spec_avg_font_size doc =
     (let sizes = map span_size
                    (filter (\<lambda>sp. 2 < length (clean_text (span_text sp))) (doc_spans doc))
      in if sizes = [] then 12 else sum_list sizes / of_nat (length sizes))"

text \<open>The title resolver without the suppression of near-duplicates: past the metadata, it
  returns the first candidate of the sorted list.\<close>

definition title_without_suppression :: "document \<Rightarrow> py_error + string" where
  "title_without_suppression doc =
     (let metadata_title = strip (case metadata_title doc of None \<Rightarrow> [] | Some t \<Rightarrow> t) in
      if metadata_title \<noteq> [] \<and> 3 < length metadata_title then Inr (clean_text metadata_title)
      else
        (case pages doc of [] \<Rightarrow> Inl IndexError
         | first_page # _ \<Rightarrow>
             (case sort_candidates (title_candidates first_page) of
                [] \<Rightarrow> Inr ''Untitled Document''
              | first # _ \<Rightarrow> Inr (tc_text first))))"

section \<open>Properties\<close>

subsection \<open>Evaluation of the character classes\<close>

lemmas char_class_defs =
  is_space_def is_digit_def is_upper_def is_lower_def is_word_def is_kept_def

lemmas example_defs = mk_span_def mk_line_def mk_block_def mk_heading_def

subsection \<open>Stripping and cleaning\<close>

lemma dropWhile_unchanged: "xs = [] \<or> \<not> P (hd xs) \<Longrightarrow> dropWhile P xs = xs"
  by (cases xs) auto

lemma strip_strip: "strip (strip t) = strip t"
proof -
  define a where "a = dropWhile is_space t"
  define b where "b = dropWhile is_space (rev a)"
  have b1: "b = [] \<or> \<not> is_space (hd b)"
    unfolding b_def by (metis hd_dropWhile)
  have a1: "a = [] \<or> \<not> is_space (hd a)"
    unfolding a_def by (metis hd_dropWhile)
  have "rev b = [] \<or> \<not> is_space (hd (rev b))"
  proof (cases "b = []")
    case True
    then show ?thesis by simp
  next
    case False
    obtain k where k: "rev a = k @ b"
      unfolding b_def by (metis takeWhile_dropWhile_id)
    then have "a = rev b @ rev k"
      by (metis rev_append rev_rev_ident)
    moreover have "a \<noteq> []"
      using False k by auto
    ultimately have "hd (rev b) = hd a"
      using False by (simp add: hd_append)
    then show ?thesis
      using a1 \<open>a \<noteq> []\<close> by simp
  qed
  then have "dropWhile is_space (rev b) = rev b"
    by (rule dropWhile_unchanged)
  moreover have "dropWhile is_space b = b"
    using b1 by (rule dropWhile_unchanged)
  ultimately show ?thesis
    unfolding strip_def a_def[symmetric] b_def[symmetric] by simp
qed

lemma length_collapse_ws: "length (collapse_ws r s) \<le> length s"
  by (induction s arbitrary: r) (auto simp: le_SucI)

text \<open>Cleaning never lengthens: the cleaned text is no longer than the stripped text.\<close>

lemma length_clean_text: "length (clean_text t) \<le> length (strip t)"
proof (cases "t = []")
  case True
  then show ?thesis by (simp add: clean_text_def)
next
  case False
  have "length (filter is_kept (collapse_ws False (strip t)))
          \<le> length (collapse_ws False (strip t))"
    by (rule length_filter_le)
  also have "\<dots> \<le> length (strip t)"
    by (rule length_collapse_ws)
  finally show ?thesis
    using False by (simp add: clean_text_def)
qed

lemma clean_text_strip: "clean_text (strip t) = clean_text t"
  by (auto simp: clean_text_def strip_strip) (simp add: strip_def)

subsection \<open>The title resolver: metadata first\<close>

text \<open>The gate of the first strategy is the length of the stripped metadata title; past
  it, the pages are not read.\<close>

lemma title_from_metadata:
  "metadata_title doc = Some t \<Longrightarrow> 3 < length (strip t)
   \<Longrightarrow> extract_title_from_pdf doc = Inr (clean_text t)"
  by (auto simp: extract_title_from_pdf_def Let_def clean_text_strip)



text \<open>Claim C8. Two documents that carry the same metadata title, longer than 3 characters
  after normalization, get the same title, however their pages differ.\<close>

theorem title_independent_of_pages:
  "metadata_title d1 = Some t \<Longrightarrow> metadata_title d2 = Some t \<Longrightarrow> 3 < length (clean_text t)
   \<Longrightarrow> extract_title_from_pdf d1 = extract_title_from_pdf d2"
  using title_from_metadata[of d1 t] title_from_metadata[of d2 t] length_clean_text[of t]
  by simp

theorem title_independent_of_pages_witness:
  "metadata_title report_doc_a = Some ''  Annual Report  '' \<and>
   metadata_title report_doc_b = Some ''  Annual Report  '' \<and>
   3 < length (clean_text ''  Annual Report  '') \<and>
   pages report_doc_a \<noteq> pages report_doc_b \<and>
   extract_title_from_pdf report_doc_a = extract_title_from_pdf report_doc_b"
proof -
  have c: "clean_text ''  Annual Report  '' = ''Annual Report''"
    by (simp add: clean_text_def strip_def char_class_defs)
  have h1: "metadata_title report_doc_a = Some ''  Annual Report  ''"
    by (simp add: report_doc_a_def)
  have h2: "metadata_title report_doc_b = Some ''  Annual Report  ''"
    by (simp add: report_doc_b_def)
  have h3: "3 < length (clean_text ''  Annual Report  '')"
    by (simp add: c)
  have h4: "pages report_doc_a \<noteq> pages report_doc_b"
    by (simp add: report_doc_a_def report_doc_b_def)
  from title_independent_of_pages[OF h1 h2 h3] h1 h2 h3 h4 show ?thesis
    by simp
qed

subsection \<open>The classifier\<close>

text \<open>Claim C6. A text whose ratio of digits to characters exceeds 0.3 is rejected,
  whatever the font size, the boldness and the average are; the text
  \<open>2023 2024 2025 2026\<close> has 16 digits in 19 characters and is rejected.\<close>

theorem digit_ratio_rejected:
  "(3 / 10 < number_ratio text \<longrightarrow> \<not> is_likely_heading text font_size is_bold avg stats) \<and>
   number_ratio ''2023 2024 2025 2026'' = 16 / 19 \<and>
   \<not> is_likely_heading ''2023 2024 2025 2026'' font_size is_bold avg stats"
  by (simp add: is_likely_heading_def number_ratio_def is_digit_def)

theorem digit_ratio_rejected_witness:
  "3 / 10 < number_ratio ''Room 101 202 303'' \<and>
   \<not> is_likely_heading ''Room 101 202 303'' 72 True 12 ()"
proof -
  have h: "3 / 10 < number_ratio ''Room 101 202 303''"
    by (simp add: number_ratio_def is_digit_def)
  from digit_ratio_rejected[of "''Room 101 202 303''" 72 True 12 "()"]
  have "3 / 10 < number_ratio ''Room 101 202 303''
          \<longrightarrow> \<not> is_likely_heading ''Room 101 202 303'' 72 True 12 ()"
    by (rule conjunct1)
  with h show ?thesis
    by blast
qed




subsection \<open>The level resolver\<close>

declare str_nat.simps [simp del]

lemma str_nat_digit: "n < 10 \<Longrightarrow> str_nat n = [digit_char n]"
  by (subst str_nat.simps) simp

lemma keys_group_append:
  "map fst (group_append g h) =
     (if tb_size h \<in> fst ` set g then map fst g else map fst g @ [tb_size h])"
  by (induction g h rule: group_append.induct) (auto simp: image_iff)

lemma set_keys_group_append:
  "set (map fst (group_append g h)) = insert (tb_size h) (set (map fst g))"
  by (simp only: keys_group_append) auto

lemma set_keys_groups:
  "set (map fst (foldl group_append g hs)) = set (map fst g) \<union> tb_size ` set hs"
proof (induction hs arbitrary: g)
  case Nil
  then show ?case by simp
next
  case (Cons h hs)
  show ?case
    by (simp only: foldl_Cons Cons.IH set_keys_group_append) auto
qed

lemma distinct_keys_groups:
  "distinct (map fst g) \<Longrightarrow> distinct (map fst (foldl group_append g hs))"
  by (induction hs arbitrary: g) (auto simp: keys_group_append image_iff)

lemma assign_levels_lookup:
  "distinct xs \<Longrightarrow>
   assign_levels xs m c s =
     (if s \<in> set xs \<and> c + length (takeWhile (\<lambda>t. t \<noteq> s) xs) \<le> 6
      then Some (''H'' @ str_nat (c + length (takeWhile (\<lambda>t. t \<noteq> s) xs)))
      else m s)"
proof (induction xs arbitrary: m c)
  case Nil
  then show ?case by simp
next
  case (Cons x xs)
  then show ?case by (cases "s = x") auto
qed

lemma takeWhile_descending:
  "sorted_wrt (>) xs \<Longrightarrow> s \<in> set xs \<Longrightarrow>
   takeWhile (\<lambda>t. t \<noteq> s) xs = filter (\<lambda>t. s < t) (xs :: rat list)"
proof (induction xs)
  case Nil
  then show ?case by simp
next
  case (Cons x xs)
  show ?case
  proof (cases "s = x")
    case True
    have "filter (\<lambda>t. x < t) xs = []"
      using Cons.prems(1) by (auto simp: filter_empty_conv)
    with True show ?thesis by simp
  next
    case False
    with Cons show ?thesis by auto
  qed
qed

lemma descending_sort: "distinct xs \<Longrightarrow> sorted_wrt (>) (rev (sort (xs :: rat list)))"
  by (simp add: sorted_wrt_rev strict_sorted_iff)

lemma length_filter_same_set:
  "distinct xs \<Longrightarrow> distinct ys \<Longrightarrow> set xs = set ys
   \<Longrightarrow> length (filter P xs) = length (filter P ys)"
  by (simp add: distinct_length_filter)

lemma level_of_heading:
  assumes "h \<in> set headings"
  shows "(case assign_levels (rev (sort (map fst (foldl group_append [] headings)))) Map.empty 1
            (tb_size h) of None \<Rightarrow> ''H6'' | Some l \<Rightarrow> l)
         = ''H'' @ str_nat (min (size_rank headings (tb_size h)) 6)"
proof -
  define keys where "keys = map fst (foldl group_append [] headings)"
  define xs where "xs = rev (sort keys)"
  have dk: "distinct keys"
    unfolding keys_def by (rule distinct_keys_groups) simp
  have sk: "set keys = tb_size ` set headings"
    unfolding keys_def by (simp only: set_keys_groups) simp
  have dx: "distinct xs" and sx: "set xs = tb_size ` set headings"
    using dk sk by (simp_all add: xs_def)
  have desc: "sorted_wrt (>) xs"
    unfolding xs_def using dk by (rule descending_sort)
  have mem: "tb_size h \<in> set xs"
    using assms sx by simp
  have "length (takeWhile (\<lambda>t. t \<noteq> tb_size h) xs) = length (filter (\<lambda>t. tb_size h < t) xs)"
    using takeWhile_descending[OF desc mem] by simp
  also have "\<dots> = length (filter (\<lambda>t. tb_size h < t) (remdups (map tb_size headings)))"
    by (rule length_filter_same_set) (use dx sx in simp_all)
  finally have idx: "Suc (length (takeWhile (\<lambda>t. t \<noteq> tb_size h) xs)) = size_rank headings (tb_size h)"
    by (simp add: size_rank_def)
  have six: "str_nat 6 = ''6''"
    by (simp add: str_nat_digit digit_char_def)
  show ?thesis
    unfolding keys_def[symmetric] xs_def[symmetric]
    using idx mem by (auto simp: assign_levels_lookup[OF dx] min_def six)
qed

lemma determine_heading_levels_map:
  "determine_heading_levels headings stats =
     map (\<lambda>h. h\<lparr>tb_level := Some (''H'' @ str_nat (min (size_rank headings (tb_size h)) 6))\<rparr>)
       headings"
proof (cases "headings = []")
  case True
  then show ?thesis by (simp add: determine_heading_levels_def)
next
  case False
  then show ?thesis
    by (simp only: determine_heading_levels_def Let_def if_False level_of_heading cong: map_cong)
qed

lemma level_ordinal_H:
  "1 \<le> n \<Longrightarrow> n \<le> 6 \<Longrightarrow> level_ordinal (Some (CHR ''H'' # str_nat n)) = n"
proof -
  assume "1 \<le> n" "n \<le> 6"
  then have "n = 1 \<or> n = 2 \<or> n = 3 \<or> n = 4 \<or> n = 5 \<or> n = 6" by arith
  then show ?thesis
    by (auto simp: level_ordinal_def str_nat_digit digit_char_def is_digit_def)
qed

lemma size_rank_mono: "s \<le> t \<Longrightarrow> size_rank hs t \<le> size_rank hs s"
proof -
  assume st: "s \<le> t"
  have "length (filter (\<lambda>u. t < u) (remdups (map tb_size hs)))
        \<le> length (filter (\<lambda>u. s < u) (remdups (map tb_size hs)))"
    unfolding length_filter_conv_card
    by (rule card_mono) (use st in auto)
  then show ?thesis by (simp add: size_rank_def)
qed

lemma size_rank_pos: "1 \<le> size_rank hs s"
  by (simp add: size_rank_def)

lemma sample_ranks:
  "map (\<lambda>h. size_rank sample_headings (tb_size h)) sample_headings = [7, 1, 8, 2, 3, 4, 5, 6, 1]"
  by (simp add: sample_headings_def mk_heading_def size_rank_def)

text \<open>Claim C2. The level resolver keeps every candidate and gives it the level of the
  rank of its size among the distinct candidate sizes, in descending order: rank 1 is
  \<open>H1\<close>, and so on to rank 6, \<open>H6\<close>, and every rank above 6 is \<open>H6\<close> too. At most 6
  distinct levels come out.\<close>

theorem levels_saturate_at_six:
  "determine_heading_levels headings stats =
     map (\<lambda>h. h\<lparr>tb_level := Some (''H'' @ str_nat (min (size_rank headings (tb_size h)) 6))\<rparr>)
       headings \<and>
   card (tb_level ` set (determine_heading_levels headings stats)) \<le> 6 \<and>
   (\<forall>h \<in> set headings. 6 < size_rank headings (tb_size h) \<longrightarrow>
      h\<lparr>tb_level := Some ''H6''\<rparr> \<in> set (determine_heading_levels headings stats))"
proof (intro conjI)
  show eq: "determine_heading_levels headings stats =
     map (\<lambda>h. h\<lparr>tb_level := Some (''H'' @ str_nat (min (size_rank headings (tb_size h)) 6))\<rparr>)
       headings"
    by (rule determine_heading_levels_map)
  have "tb_level ` set (determine_heading_levels headings stats)
          \<subseteq> (\<lambda>n. Some (''H'' @ str_nat n)) ` {1..6}"
  proof
    fix l assume "l \<in> tb_level ` set (determine_heading_levels headings stats)"
    then obtain h where "h \<in> set headings"
      and l: "l = Some (''H'' @ str_nat (min (size_rank headings (tb_size h)) 6))"
      unfolding eq by auto
    have "min (size_rank headings (tb_size h)) 6 \<in> {1..6}"
      using size_rank_pos[of headings "tb_size h"] by auto
    then show "l \<in> (\<lambda>n. Some (''H'' @ str_nat n)) ` {1..6}"
      unfolding l by (rule imageI)
  qed
  then have "card (tb_level ` set (determine_heading_levels headings stats))
          \<le> card ((\<lambda>n. Some (''H'' @ str_nat n)) ` {1..6::nat})"
    by (intro card_mono) simp_all
  also have "\<dots> \<le> card {1..6::nat}"
    by (rule card_image_le) simp
  finally show "card (tb_level ` set (determine_heading_levels headings stats)) \<le> 6"
    by simp
  have six: "str_nat 6 = ''6''"
    by (simp add: str_nat_digit digit_char_def)
  show "\<forall>h \<in> set headings. 6 < size_rank headings (tb_size h) \<longrightarrow>
      h\<lparr>tb_level := Some ''H6''\<rparr> \<in> set (determine_heading_levels headings stats)"
  proof (intro ballI impI)
    fix h assume h: "h \<in> set headings" and r: "6 < size_rank headings (tb_size h)"
    from r have "min (size_rank headings (tb_size h)) 6 = 6" by simp
    then have "h\<lparr>tb_level := Some ''H6''\<rparr> =
        (\<lambda>h. h\<lparr>tb_level := Some (''H'' @ str_nat (min (size_rank headings (tb_size h)) 6))\<rparr>) h"
      by (simp add: six)
    also have "\<dots> \<in> set (determine_heading_levels headings stats)"
      unfolding eq using h by (simp only: set_map) (rule imageI)
    finally show "h\<lparr>tb_level := Some ''H6''\<rparr> \<in> set (determine_heading_levels headings stats)" .
  qed
qed

theorem levels_saturate_at_six_witness:
  "mk_heading ''Remark'' 2 40 16 \<in> set sample_headings \<and>
   6 < size_rank sample_headings (tb_size (mk_heading ''Remark'' 2 40 16)) \<and>
   (mk_heading ''Remark'' 2 40 16)\<lparr>tb_level := Some ''H6''\<rparr>
     \<in> set (determine_heading_levels sample_headings ()) \<and>
   map tb_level (determine_heading_levels sample_headings ()) =
     [Some ''H6'', Some ''H1'', Some ''H6'', Some ''H2'', Some ''H3'', Some ''H4'', Some ''H5'',
      Some ''H6'', Some ''H1'']"
proof -
  note t = levels_saturate_at_six[of sample_headings "()"]
  have m: "mk_heading ''Remark'' 2 40 16 \<in> set sample_headings"
    by (simp add: sample_headings_def)
  have r: "6 < size_rank sample_headings (tb_size (mk_heading ''Remark'' 2 40 16))"
    by (simp add: sample_headings_def mk_heading_def size_rank_def)
  from t have "\<forall>h \<in> set sample_headings. 6 < size_rank sample_headings (tb_size h) \<longrightarrow>
      h\<lparr>tb_level := Some ''H6''\<rparr> \<in> set (determine_heading_levels sample_headings ())"
    by blast
  with m r have a: "(mk_heading ''Remark'' 2 40 16)\<lparr>tb_level := Some ''H6''\<rparr>
     \<in> set (determine_heading_levels sample_headings ())"
    by blast
  from t have "map tb_level (determine_heading_levels sample_headings ()) =
      map (\<lambda>h. Some (''H'' @ str_nat (min (size_rank sample_headings (tb_size h)) 6)))
        sample_headings"
    by (simp add: comp_def)
  also have "\<dots> = map (\<lambda>n. Some (''H'' @ str_nat (min n 6)))
      (map (\<lambda>h. size_rank sample_headings (tb_size h)) sample_headings)"
    by (simp add: comp_def)
  also have "\<dots> = [Some ''H6'', Some ''H1'', Some ''H6'', Some ''H2'', Some ''H3'', Some ''H4'',
      Some ''H5'', Some ''H6'', Some ''H1'']"
    unfolding sample_ranks by (simp add: str_nat_digit digit_char_def)
  finally show ?thesis
    using m r a by blast
qed

text \<open>Claim C3. Of two candidates of one document, the one of the larger size gets a level
  whose ordinal is not larger, and two candidates of the same size get the same level;
  every ordinal lies between 1 and 6.\<close>

theorem levels_monotone:
  "i < length headings \<Longrightarrow> j < length headings \<Longrightarrow>
   (tb_size (headings ! j) < tb_size (headings ! i) \<longrightarrow>
      level_ordinal (tb_level (determine_heading_levels headings stats ! i))
        \<le> level_ordinal (tb_level (determine_heading_levels headings stats ! j))) \<and>
   (tb_size (headings ! i) = tb_size (headings ! j) \<longrightarrow>
      tb_level (determine_heading_levels headings stats ! i)
        = tb_level (determine_heading_levels headings stats ! j)) \<and>
   level_ordinal (tb_level (determine_heading_levels headings stats ! i)) \<in> {1..6}"
proof -
  assume i: "i < length headings" and j: "j < length headings"
  have ord: "level_ordinal (tb_level (determine_heading_levels headings stats ! k))
               = min (size_rank headings (tb_size (headings ! k))) 6"
    if "k < length headings" for k
  proof -
    have "1 \<le> min (size_rank headings (tb_size (headings ! k))) 6"
      and "min (size_rank headings (tb_size (headings ! k))) 6 \<le> 6"
      using size_rank_pos[of headings "tb_size (headings ! k)"] by simp_all
    from level_ordinal_H[OF this] that show ?thesis
      by (simp add: determine_heading_levels_map)
  qed
  have lev: "tb_level (determine_heading_levels headings stats ! k)
               = Some (''H'' @ str_nat (min (size_rank headings (tb_size (headings ! k))) 6))"
    if "k < length headings" for k
    using that by (simp add: determine_heading_levels_map)
  have "tb_size (headings ! j) < tb_size (headings ! i) \<longrightarrow>
      level_ordinal (tb_level (determine_heading_levels headings stats ! i))
        \<le> level_ordinal (tb_level (determine_heading_levels headings stats ! j))"
  proof
    assume "tb_size (headings ! j) < tb_size (headings ! i)"
    then have "size_rank headings (tb_size (headings ! i))
                 \<le> size_rank headings (tb_size (headings ! j))"
      by (intro size_rank_mono) simp
    then show "level_ordinal (tb_level (determine_heading_levels headings stats ! i))
        \<le> level_ordinal (tb_level (determine_heading_levels headings stats ! j))"
      unfolding ord[OF i] ord[OF j] by simp
  qed
  moreover have "tb_size (headings ! i) = tb_size (headings ! j) \<longrightarrow>
      tb_level (determine_heading_levels headings stats ! i)
        = tb_level (determine_heading_levels headings stats ! j)"
    unfolding lev[OF i] lev[OF j] by simp
  moreover have "level_ordinal (tb_level (determine_heading_levels headings stats ! i)) \<in> {1..6}"
    unfolding ord[OF i] using size_rank_pos[of headings "tb_size (headings ! i)"] by simp
  ultimately show ?thesis
    by blast
qed

theorem levels_monotone_witness:
  "1 < length sample_headings \<and> 0 < length sample_headings \<and> 8 < length sample_headings \<and>
   tb_size (sample_headings ! 0) < tb_size (sample_headings ! 1) \<and>
   level_ordinal (tb_level (determine_heading_levels sample_headings () ! 1))
     \<le> level_ordinal (tb_level (determine_heading_levels sample_headings () ! 0)) \<and>
   tb_size (sample_headings ! 1) = tb_size (sample_headings ! 8) \<and>
   tb_level (determine_heading_levels sample_headings () ! 1)
     = tb_level (determine_heading_levels sample_headings () ! 8)"
proof -
  have l0: "0 < length sample_headings" and l1: "1 < length sample_headings"
    and l8: "8 < length sample_headings"
    by (simp_all add: sample_headings_def)
  have lt: "tb_size (sample_headings ! 0) < tb_size (sample_headings ! 1)"
    by (simp add: sample_headings_def mk_heading_def)
  have eq: "tb_size (sample_headings ! 1) = tb_size (sample_headings ! 8)"
    by (simp add: sample_headings_def mk_heading_def)
  from levels_monotone[OF l1 l0, of "()"] levels_monotone[OF l1 l8, of "()"] l0 l1 l8 lt eq
  show ?thesis
    by blast
qed

text \<open>Claim C1. With an average size of 12, the text \<open>INTRODUCTION\<close> at size 24, not
  bold, scores 8 and is accepted; as the only candidate it gets level \<open>H1\<close>. In the
  document \<open>introduction_doc\<close>, where it is the only span of page 1 and the average size
  is 12, the outline is this one heading at level \<open>H1\<close>.\<close>

theorem introduction_example:
  "heading_score ''INTRODUCTION'' 24 False 12 = 8 \<and>
   is_likely_heading ''INTRODUCTION'' 24 False 12 (extract_font_statistics introduction_doc) \<and>
   determine_heading_levels [mk_heading ''INTRODUCTION'' 1 50 24]
       (extract_font_statistics introduction_doc)
     = [(mk_heading ''INTRODUCTION'' 1 50 24)\<lparr>tb_level := Some ''H1''\<rparr>] \<and>
   avg_font_size (extract_font_statistics introduction_doc) = 12 \<and>
   extract_outline introduction_doc =
     \<lparr> res_title = ''Untitled Document'',
       res_outline = [\<lparr> oe_level = ''H1'', oe_text = ''INTRODUCTION'', oe_page = 1 \<rparr>] \<rparr>"
proof (intro conjI)
  show "heading_score ''INTRODUCTION'' 24 False 12 = 8"
    by code_simp
  then show "is_likely_heading ''INTRODUCTION'' 24 False 12
      (extract_font_statistics introduction_doc)"
    by (simp add: is_likely_heading_def strip_def split_def number_ratio_def
        is_space_def is_digit_def)
  show "determine_heading_levels [mk_heading ''INTRODUCTION'' 1 50 24]
       (extract_font_statistics introduction_doc)
     = [(mk_heading ''INTRODUCTION'' 1 50 24)\<lparr>tb_level := Some ''H1''\<rparr>]"
    by (simp add: determine_heading_levels_map size_rank_def str_nat_digit digit_char_def)
  show "avg_font_size (extract_font_statistics introduction_doc) = 12"
    by code_simp
  show "extract_outline introduction_doc =
     \<lparr> res_title = ''Untitled Document'',
       res_outline = [\<lparr> oe_level = ''H1'', oe_text = ''INTRODUCTION'', oe_page = 1 \<rparr>] \<rparr>"
    by code_simp
qed

subsection \<open>The title resolver: geometry of page 1\<close>

lemma filter_duplicates_extends: "\<exists>rest. filter_duplicates cs acc = acc @ rest"
proof (induction cs arbitrary: acc)
  case Nil
  then show ?case by simp
next
  case (Cons c cs)
  show ?case
  proof (cases "is_duplicate c acc")
    case True
    then show ?thesis using Cons.IH[of acc] by simp
  next
    case False
    then show ?thesis using Cons.IH[of "acc @ [c]"] by auto
  qed
qed

lemma filter_duplicates_first:
  "(case filter_duplicates (c # cs) [] of [] \<Rightarrow> a | first # _ \<Rightarrow> f first) = f c"
proof -
  obtain rest where "filter_duplicates cs [c] = [c] @ rest"
    using filter_duplicates_extends by blast
  then show ?thesis by (simp add: is_duplicate_def)
qed

lemma sort_candidates_Nil: "sort_candidates cs = [] \<longleftrightarrow> cs = []"
proof
  assume "sort_candidates cs = []"
  then have "length (sort_candidates cs) = 0"
    by simp
  then show "cs = []"
    by (simp add: sort_candidates_def)
next
  assume "cs = []"
  then show "sort_candidates cs = []"
    by (simp add: sort_candidates_def)
qed

lemma first_survives:
  "(if cs = [] then a
    else case filter_duplicates (sort_candidates cs) [] of [] \<Rightarrow> a | first # _ \<Rightarrow> f first)
   = (case sort_candidates cs of [] \<Rightarrow> a | first # _ \<Rightarrow> f first)"
proof (cases "sort_candidates cs")
  case Nil
  then have e: "cs = []"
    by (simp only: sort_candidates_Nil)
  have s0: "sort_candidates [] = []"
    by (simp only: sort_candidates_Nil)
  show ?thesis
    by (simp only: e s0 simp_thms if_True list.case)
next
  case (Cons c rest)
  have ne: "cs \<noteq> []"
  proof
    assume "cs = []"
    then have "sort_candidates cs = []"
      by (simp only: sort_candidates_Nil)
    with Cons show False
      by simp
  qed
  have fd: "(case filter_duplicates (c # rest) [] of [] \<Rightarrow> a | first # _ \<Rightarrow> f first) = f c"
    by (rule filter_duplicates_first)
  show ?thesis
    by (simp only: Cons ne if_False fd list.case)
qed

lemma title_suppression_irrelevant: "extract_title_from_pdf doc = title_without_suppression doc"
proof (cases "pages doc")
  case Nil
  then show ?thesis
    by (simp add: extract_title_from_pdf_def title_without_suppression_def Let_def)
next
  case (Cons p ps)
  then show ?thesis
    by (simp add: extract_title_from_pdf_def title_without_suppression_def Let_def
        first_survives)
qed

lemma sort_candidates_head:
  assumes "sort_candidates cs = c # rest"
  shows "c \<in> set cs \<and>
         (\<forall>c' \<in> set cs. tc_size c' \<le> tc_size c \<and> (tc_size c' = tc_size c \<longrightarrow> tc_y c \<le> tc_y c'))"
proof -
  define key where "key = (\<lambda>x :: title_candidate. (- tc_size x, tc_y x))"
  have srt: "sort_key key cs = c # rest"
    using assms by (simp add: sort_candidates_def key_def)
  have s: "set cs = set (c # rest)"
    using set_sort[of key cs] unfolding srt by simp
  have "sorted (map key (sort_key key cs))"
    by (rule sorted_sort_key)
  then have "\<forall>c' \<in> set rest. key c \<le> key c'"
    unfolding srt by simp
  then have le: "\<forall>c' \<in> set cs. key c \<le> key c'"
    unfolding s by simp
  have "tc_size c' \<le> tc_size c \<and> (tc_size c' = tc_size c \<longrightarrow> tc_y c \<le> tc_y c')"
    if "c' \<in> set cs" for c'
    using le that by (auto simp: key_def less_eq_prod_def)
  moreover have "c \<in> set cs"
    unfolding s by simp
  ultimately show ?thesis
    by blast
qed

text \<open>Claim C9. The suppression of near-duplicates never changes the title: the resolver
  equals the one that returns the first candidate of the sorted list. When the metadata
  gives no title and page 1 has a candidate, the title is the text of a candidate of the
  largest size and, among those, of the smallest height \<open>y\<close>.\<close>

theorem suppression_never_changes_title:
  "extract_title_from_pdf doc = title_without_suppression doc \<and>
   (length (strip (case metadata_title doc of None \<Rightarrow> [] | Some t \<Rightarrow> t)) \<le> 3 \<and>
    pages doc = p # ps \<and> title_candidates p \<noteq> [] \<longrightarrow>
    (\<exists>c \<in> set (title_candidates p).
        extract_title_from_pdf doc = Inr (tc_text c) \<and>
        (\<forall>c' \<in> set (title_candidates p).
            tc_size c' \<le> tc_size c \<and> (tc_size c' = tc_size c \<longrightarrow> tc_y c \<le> tc_y c'))))"
proof (intro conjI impI)
  show "extract_title_from_pdf doc = title_without_suppression doc"
    by (rule title_suppression_irrelevant)
  assume a: "length (strip (case metadata_title doc of None \<Rightarrow> [] | Some t \<Rightarrow> t)) \<le> 3 \<and>
    pages doc = p # ps \<and> title_candidates p \<noteq> []"
  then obtain c rest where c: "sort_candidates (title_candidates p) = c # rest"
    by (cases "sort_candidates (title_candidates p)") (auto simp: sort_candidates_Nil)
  have "title_without_suppression doc = Inr (tc_text c)"
    using a c by (simp add: title_without_suppression_def Let_def)
  then have "extract_title_from_pdf doc = Inr (tc_text c)"
    by (simp add: title_suppression_irrelevant)
  with sort_candidates_head[OF c]
  show "\<exists>c \<in> set (title_candidates p).
        extract_title_from_pdf doc = Inr (tc_text c) \<and>
        (\<forall>c' \<in> set (title_candidates p).
            tc_size c' \<le> tc_size c \<and> (tc_size c' = tc_size c \<longrightarrow> tc_y c \<le> tc_y c'))"
    by blast
qed

theorem suppression_never_changes_title_witness:
  "length (strip (case metadata_title title_doc of None \<Rightarrow> [] | Some t \<Rightarrow> t)) \<le> 3 \<and>
   pages title_doc = title_page # [] \<and> title_candidates title_page \<noteq> [] \<and>
   extract_title_from_pdf title_doc = title_without_suppression title_doc \<and>
   (\<exists>c \<in> set (title_candidates title_page).
        extract_title_from_pdf title_doc = Inr (tc_text c) \<and>
        (\<forall>c' \<in> set (title_candidates title_page).
            tc_size c' \<le> tc_size c \<and> (tc_size c' = tc_size c \<longrightarrow> tc_y c \<le> tc_y c'))) \<and>
   extract_title_from_pdf title_doc = Inr ''Quarterly Figures Overview''"
proof -
  have v: "extract_title_from_pdf title_doc = Inr ''Quarterly Figures Overview''"
    by code_simp
  have h1: "length (strip (case metadata_title title_doc of None \<Rightarrow> [] | Some t \<Rightarrow> t)) \<le> 3"
    by (simp add: title_doc_def strip_def)
  have h2: "pages title_doc = title_page # []"
    by (simp add: title_doc_def)
  have h3: "title_candidates title_page \<noteq> []"
    by code_simp
  from suppression_never_changes_title[of title_doc title_page "[]"] h1 h2 h3 v show ?thesis
    by blast
qed

subsection \<open>The font statistics\<close>

lemma fold_stats_span:
  "fst (fold stats_span sps st) =
     fst st @ map (\<lambda>sp. round1 (span_size sp))
                (filter (\<lambda>sp. 2 < length (strip (span_text sp))) sps)"
  by (induction sps arbitrary: st) (auto simp: stats_span_def Let_def)

lemma fold_stats_lines:
  "fst (fold (\<lambda>l. fold stats_span (line_spans l)) ls st) =
     fst st @ map (\<lambda>sp. round1 (span_size sp))
                (filter (\<lambda>sp. 2 < length (strip (span_text sp))) (concat (map line_spans ls)))"
  by (induction ls arbitrary: st) (simp_all add: fold_stats_span)

lemma stats_block_sizes:
  "fst (stats_block b st) =
     fst st @ map (\<lambda>sp. round1 (span_size sp))
                (filter (\<lambda>sp. 2 < length (strip (span_text sp))) (block_spans b))"
  by (simp add: stats_block_def block_spans_def fold_stats_lines split: option.splits)

lemma fold_stats_blocks:
  "fst (fold stats_block bs st) =
     fst st @ map (\<lambda>sp. round1 (span_size sp))
                (filter (\<lambda>sp. 2 < length (strip (span_text sp))) (page_spans bs))"
  by (induction bs arbitrary: st) (simp_all add: stats_block_sizes page_spans_def)

lemma fold_stats_pages:
  "fst (fold (\<lambda>page. fold stats_block page) ps st) =
     fst st @ map (\<lambda>sp. round1 (span_size sp))
                (filter (\<lambda>sp. 2 < length (strip (span_text sp))) (concat (map page_spans ps)))"
  by (induction ps arbitrary: st) (simp_all add: fold_stats_blocks)

text \<open>Claim C5, as amended. The average font size is the mean of the sizes, each rounded to
  one decimal, of the spans whose text, stripped of whitespace at both ends and not
  cleaned otherwise, is longer than 2 characters; it is 12 when there is no such span.\<close>

theorem avg_font_size_is_mean_of_rounded_sizes:
  "avg_font_size (extract_font_statistics doc) =
     (let sizes = map (\<lambda>sp. round1 (span_size sp))
                    (filter (\<lambda>sp. 2 < length (strip (span_text sp))) (doc_spans doc))
      in if sizes = [] then 12 else sum_list sizes / of_nat (length sizes))"
  by (simp add: extract_font_statistics_def Let_def fold_stats_pages doc_spans_def)


text \<open>Claim C5, as stated, fails on \<open>symbols_doc\<close>: the span \<open>@@@\<close> has 3 characters
  when stripped and none when normalized, so the program averages over it and returns 20,
  where the mean over the spans that qualify after normalization is the default 12.\<close>

theorem avg_font_size_counts_uncleaned_text:
  "avg_font_size (extract_font_statistics symbols_doc) = 20 \<and>
   spec_avg_font_size symbols_doc = 12 \<and>
   avg_font_size (extract_font_statistics symbols_doc) \<noteq> spec_avg_font_size symbols_doc"
proof -
  have a: "avg_font_size (extract_font_statistics symbols_doc) = 20"
    by code_simp
  have b: "spec_avg_font_size symbols_doc = 12"
    by code_simp
  show ?thesis
    by (simp add: a b)
qed

subsection \<open>Documents without text\<close>

text \<open>A document with a page at least, no usable metadata title and no span whose
  normalized text reaches 3 characters yields the title \<open>Untitled Document\<close> and an empty
  outline.\<close>

lemma span_in_page:
  assumes "b \<in> set p" and "block_lines b = Some ls" and "l \<in> set ls"
    and "sp \<in> set (line_spans l)"
  shows "sp \<in> set (page_spans p)"
proof -
  have "sp \<in> set (concat (map line_spans ls))"
    using assms(3,4) by auto
  then have "sp \<in> set (block_spans b)"
    using assms(2) by (simp add: block_spans_def)
  then show ?thesis
    using assms(1) unfolding page_spans_def by auto
qed

lemma page_text_blocks_empty:
  assumes "\<forall>sp \<in> set (page_spans p). length (clean_text (span_text sp)) < 3"
  shows "page_text_blocks n p = []"
  unfolding page_text_blocks_def
  using assms
  by (auto simp: Let_def split: option.splits dest!: span_in_page)

lemma title_candidates_empty:
  assumes "\<forall>sp \<in> set (page_spans p). length (clean_text (span_text sp)) < 3"
  shows "title_candidates p = []"
  unfolding title_candidates_def
  using assms
  by (auto simp: Let_def split: option.splits dest!: span_in_page)

lemma text_blocks_empty:
  assumes "\<forall>sp \<in> set (doc_spans doc). length (clean_text (span_text sp)) < 3"
  shows "text_blocks_of doc = []"
proof -
  have "page_text_blocks n p = []" if "(n, p) \<in> set (enumerate 1 (pages doc))" for n p
  proof (rule page_text_blocks_empty)
    from that have "p \<in> set (pages doc)"
      by (auto simp: enumerate_eq_zip dest: set_zip_rightD)
    then show "\<forall>sp \<in> set (page_spans p). length (clean_text (span_text sp)) < 3"
      using assms by (auto simp: doc_spans_def)
  qed
  then show ?thesis
    by (auto simp: text_blocks_of_def)
qed

lemma blank_document:
  assumes pg: "pages doc = p # ps"
    and mt: "length (strip (case metadata_title doc of None \<Rightarrow> [] | Some t \<Rightarrow> t)) \<le> 3"
    and sp: "\<forall>sp \<in> set (doc_spans doc). length (clean_text (span_text sp)) < 3"
  shows "extract_outline doc = \<lparr> res_title = ''Untitled Document'', res_outline = [] \<rparr>"
proof -
  have tb: "text_blocks_of doc = []"
    using sp by (rule text_blocks_empty)
  have "\<forall>sp \<in> set (page_spans p). length (clean_text (span_text sp)) < 3"
    using sp pg by (simp add: doc_spans_def)
  then have tc: "title_candidates p = []"
    by (rule title_candidates_empty)
  have t: "extract_title_from_pdf doc = Inr ''Untitled Document''"
    using pg mt tc by (simp add: extract_title_from_pdf_def Let_def)
  show ?thesis
    by (simp add: extract_outline_def extract_outline_try_def Let_def tb t
        determine_heading_levels_def)
qed

text \<open>For instance, a document of one empty page.\<close>

lemma blank_page_example:
  "extract_outline \<lparr> metadata_title = None, pages = [ [] ] \<rparr>
     = \<lparr> res_title = ''Untitled Document'', res_outline = [] \<rparr>"
  by (rule blank_document[where p = "[]" and ps = "[]"])
     (simp_all add: doc_spans_def page_spans_def strip_def)

text \<open>Claim C7. A document without pages has no span and no metadata title, but
  \<open>doc[0]\<close> raises \<open>IndexError\<close> in the title resolver, and the handler of
  \<open>extract_outline\<close> returns the title \<open>Error Processing Document\<close>, not
  \<open>Untitled Document\<close>.\<close>

theorem no_pages_document_is_an_error:
  "doc_spans no_pages_doc = [] \<and> metadata_title no_pages_doc = None \<and>
   extract_title_from_pdf no_pages_doc = Inl IndexError \<and>
   extract_outline no_pages_doc =
     \<lparr> res_title = ''Error Processing Document'', res_outline = [] \<rparr>"
  by (simp add: no_pages_doc_def doc_spans_def extract_outline_def extract_outline_try_def
      extract_title_from_pdf_def strip_def Let_def)

end
